theory Spec2Isabelle
  imports Main "HOL-Library.Word"
begin

unbundle bit_operations_syntax

section \<open>Data model of vgacontroller.h\<close>

text \<open>
  The header declares the data types of the VGA controller and defines a few inline
  operations on them: the comparison operators of \<open>RGB\<close>, the glyph-map item macro with
  its accessors, and the frame accessors of \<open>Sprite\<close>. Each of them is embedded below as
  the header writes it. Fixed-width C integers are machine words; a comparison or an
  addition on \<open>int16_t\<close> operands happens after promotion to \<open>int\<close>, which \<open>sint\<close>
  expresses.
\<close>

type_synonym uint8_t = "8 word"
type_synonym uint16_t = "16 word"
type_synonym uint32_t = "32 word"
type_synonym int16_t = "16 word"

subsection \<open>Named colors\<close>

datatype Color =
    Black | Red | Green | Yellow | Blue | Magenta | Cyan | White
  | BrightBlack | BrightRed | BrightGreen | BrightYellow
  | BrightBlue | BrightMagenta | BrightCyan | BrightWhite

text \<open>The enumerators, in declaration order: enumerator number \<open>i\<close> is at index \<open>i\<close>.\<close>

definition Color_enumerators :: "Color list" where
  "Color_enumerators =
     [Black, Red, Green, Yellow, Blue, Magenta, Cyan, White,
      BrightBlack, BrightRed, BrightGreen, BrightYellow,
      BrightBlue, BrightMagenta, BrightCyan, BrightWhite]"

text \<open>The cast \<open>(uint32_t)(color)\<close>: the enumerator's number.\<close>

fun Color_to_uint32 :: "Color \<Rightarrow> uint32_t" where
  "Color_to_uint32 Black = 0"
| "Color_to_uint32 Red = 1"
| "Color_to_uint32 Green = 2"
| "Color_to_uint32 Yellow = 3"
| "Color_to_uint32 Blue = 4"
| "Color_to_uint32 Magenta = 5"
| "Color_to_uint32 Cyan = 6"
| "Color_to_uint32 White = 7"
| "Color_to_uint32 BrightBlack = 8"
| "Color_to_uint32 BrightRed = 9"
| "Color_to_uint32 BrightGreen = 10"
| "Color_to_uint32 BrightYellow = 11"
| "Color_to_uint32 BrightBlue = 12"
| "Color_to_uint32 BrightMagenta = 13"
| "Color_to_uint32 BrightCyan = 14"
| "Color_to_uint32 BrightWhite = 15"

text \<open>
  The cast \<open>(Color)(v)\<close> of a value already masked with \<open>0x0F\<close>, the only way the header
  uses it: the mask is part of the definition, so the index is always below 16.
\<close>

definition Color_of_nibble :: "uint32_t \<Rightarrow> Color" where
  "Color_of_nibble v = Color_enumerators ! unat (v AND 0x0F)"

subsection \<open>RGB and its comparison operators\<close>

text \<open>\<open>struct RGB\<close>: three bit-fields of two bits each.\<close>

record RGB =
  R :: "2 word"
  G :: "2 word"
  B :: "2 word"

text \<open>The constructor \<open>RGB(uint8_t red, uint8_t green, uint8_t blue)\<close>: storing into a
  two-bit field keeps the low two bits.\<close>

definition RGB_make :: "uint8_t \<Rightarrow> uint8_t \<Rightarrow> uint8_t \<Rightarrow> RGB" where
  "RGB_make red green blue = \<lparr>R = ucast red, G = ucast green, B = ucast blue\<rparr>"

text \<open>\<open>operator==\<close>: \<open>lhs.R == rhs.R && lhs.G == rhs.G && lhs.B == rhs.B\<close>.\<close>

definition operator_eq :: "RGB \<Rightarrow> RGB \<Rightarrow> bool" where
  "operator_eq lhs rhs \<longleftrightarrow> R lhs = R rhs \<and> G lhs = G rhs \<and> B lhs = B rhs"

text \<open>\<open>operator!=\<close>, as written in the header:
  \<open>lhs.R != rhs.R || lhs.G != rhs.G || lhs.B == rhs.B\<close>.\<close>

definition operator_ne :: "RGB \<Rightarrow> RGB \<Rightarrow> bool" where
  "operator_ne lhs rhs \<longleftrightarrow> R lhs \<noteq> R rhs \<or> G lhs \<noteq> G rhs \<or> B lhs = B rhs"

subsection \<open>Glyph options and glyph-map items\<close>

text \<open>
  \<open>union GlyphOptions\<close> overlays a struct of bit-fields with \<open>uint16_t value\<close>. The
  glyph-map functions read and write the union through \<open>value\<close> only, so the union is
  modelled by that 16-bit view.
\<close>

type_synonym GlyphOptions = uint16_t

definition GLYPHMAP_INDEX_BIT :: nat where "GLYPHMAP_INDEX_BIT = 0"
definition GLYPHMAP_BGCOLOR_BIT :: nat where "GLYPHMAP_BGCOLOR_BIT = 8"
definition GLYPHMAP_FGCOLOR_BIT :: nat where "GLYPHMAP_FGCOLOR_BIT = 12"
definition GLYPHMAP_OPTIONS_BIT :: nat where "GLYPHMAP_OPTIONS_BIT = 16"

text \<open>
  The macro casts each argument to \<open>uint32_t\<close> first; the arguments below are the values
  after that cast (for a \<open>Color\<close> argument, \<open>Color_to_uint32\<close> of it).
\<close>

definition GLYPHMAP_ITEM_MAKE ::
    "uint32_t \<Rightarrow> uint32_t \<Rightarrow> uint32_t \<Rightarrow> GlyphOptions \<Rightarrow> uint32_t" where
  "GLYPHMAP_ITEM_MAKE index bgColor fgColor options =
     push_bit GLYPHMAP_INDEX_BIT index
     OR push_bit GLYPHMAP_BGCOLOR_BIT bgColor
     OR push_bit GLYPHMAP_FGCOLOR_BIT fgColor
     OR push_bit GLYPHMAP_OPTIONS_BIT (ucast options)"

text \<open>The accessors take a pointer to the item; the model passes the item itself, and
  \<open>glyphMapItem_setOptions\<close> returns the item it stores.\<close>

definition glyphMapItem_getIndex :: "uint32_t \<Rightarrow> uint8_t" where
  "glyphMapItem_getIndex mapItem = ucast (drop_bit GLYPHMAP_INDEX_BIT mapItem AND 0xFF)"

definition glyphMapItem_getBGColor :: "uint32_t \<Rightarrow> Color" where
  "glyphMapItem_getBGColor mapItem = Color_of_nibble (drop_bit GLYPHMAP_BGCOLOR_BIT mapItem AND 0x0F)"

definition glyphMapItem_getFGColor :: "uint32_t \<Rightarrow> Color" where
  "glyphMapItem_getFGColor mapItem = Color_of_nibble (drop_bit GLYPHMAP_FGCOLOR_BIT mapItem AND 0x0F)"

definition glyphMapItem_getOptions :: "uint32_t \<Rightarrow> GlyphOptions" where
  "glyphMapItem_getOptions mapItem = ucast (drop_bit GLYPHMAP_OPTIONS_BIT mapItem AND 0xFFFF)"

definition glyphMapItem_setOptions :: "uint32_t \<Rightarrow> GlyphOptions \<Rightarrow> uint32_t" where
  "glyphMapItem_setOptions mapItem options =
     (mapItem AND NOT (push_bit GLYPHMAP_OPTIONS_BIT 0xFFFF))
     OR push_bit GLYPHMAP_OPTIONS_BIT (ucast options)"

subsection \<open>Bitmaps and sprites\<close>

record Bitmap =
  width :: int16_t
  height :: int16_t
  data :: "uint8_t list"
  dataAllocated :: bool

text \<open>
  \<open>struct Sprite\<close>, with the fields its inline frame accessors read or write and the
  bookkeeping fields beside them. \<open>frames\<close> is a pointer to an array of bitmap pointers:
  \<open>None\<close> is the null pointer, \<open>Some fs\<close> an array holding the elements \<open>fs\<close>.
\<close>

record Sprite =
  frames :: "Bitmap list option"
  framesCount :: int16_t
  currentFrame :: int16_t
  savedX :: int16_t
  savedY :: int16_t
  savedBackgroundWidth :: int16_t
  savedBackgroundHeight :: int16_t
  visible :: bool
  isStatic :: bool
  allowDraw :: bool

datatype access_error = IndexOutOfBounds

text \<open>
  \<open>getFrame\<close>: \<open>frames ? frames[currentFrame] : NULL\<close>. The read \<open>frames[currentFrame]\<close>
  is inside the array only for an index from 0 up to its length; any other index is the
  error \<open>IndexOutOfBounds\<close>.
\<close>

definition getFrame :: "Sprite \<Rightarrow> access_error + Bitmap option" where
  "getFrame s =
     (case frames s of
        None \<Rightarrow> Inr None
      | Some fs \<Rightarrow>
          if 0 \<le> sint (currentFrame s) \<and> sint (currentFrame s) < int (length fs)
          then Inr (Some (fs ! nat (sint (currentFrame s))))
          else Inl IndexOutOfBounds)"

definition getFrameIndex :: "Sprite \<Rightarrow> int" where
  "getFrameIndex s = sint (currentFrame s)"

text \<open>\<open>nextFrame\<close>: \<open>++currentFrame; if (currentFrame >= framesCount) currentFrame = 0;\<close>
  The increment is on an \<open>int16_t\<close> and wraps; the comparison is signed.\<close>

definition nextFrame :: "Sprite \<Rightarrow> Sprite" where
  "nextFrame s =
     (let s1 = s\<lparr>currentFrame := currentFrame s + 1\<rparr>
      in if sint (framesCount s1) \<le> sint (currentFrame s1)
         then s1\<lparr>currentFrame := 0\<rparr>
         else s1)"

text \<open>\<open>setFrame(int frame)\<close>: the assignment narrows the \<open>int\<close> to \<open>int16_t\<close>.\<close>

definition setFrame :: "Sprite \<Rightarrow> int \<Rightarrow> Sprite" where
  "setFrame s frame = s\<lparr>currentFrame := word_of_int frame\<rparr>"

text \<open>The array \<open>frames\<close> points to holds exactly \<open>framesCount\<close> bitmaps.\<close>

definition frames_sized :: "Sprite \<Rightarrow> bool" where
  "frames_sized s =
     (case frames s of
        None \<Rightarrow> True
      | Some fs \<Rightarrow> int (length fs) = sint (framesCount s))"

text \<open>The index of the current frame is one of the array: from 0 up to
  \<open>framesCount\<close>.\<close>

definition frame_in_range :: "Sprite \<Rightarrow> bool" where
  "frame_in_range s \<longleftrightarrow>
     0 \<le> sint (currentFrame s) \<and> sint (currentFrame s) < sint (framesCount s)"

subsection \<open>Concrete inputs used by the examples\<close>

definition example_bitmap :: Bitmap where
  "example_bitmap = \<lparr>width = 1, height = 1, data = [0], dataAllocated = False\<rparr>"

definition example_sprite :: Sprite where
  "example_sprite =
     \<lparr>frames = Some [example_bitmap, example_bitmap, example_bitmap],
      framesCount = 3, currentFrame = 2, savedX = 0, savedY = 0,
      savedBackgroundWidth = 0, savedBackgroundHeight = 0,
      visible = True, isStatic = False, allowDraw = True\<rparr>"

section \<open>Parts of the controller whose bodies are outside the header\<close>

subsection \<open>Signal encoder\<close>

text \<open>
  Modelled from the spec: the body of \<open>preparePixel\<close> and the bit positions of the output
  sample (constants of the implementation file) are missing; the header only declares
  \<open>uint8_t preparePixel(RGB rgb, bool HSync, bool VSync)\<close> and the field
  \<open>m_bitsPerChannel\<close> (1 = 8 colors, 2 = 64 colors). The spec describes the encoder as a
  pure function packing one color sample plus two sync bits into one output word, with
  fixed bit positions, parameterized by the channel bit depth. The bit positions are
  taken as a parameter: \<open>sample_layout\<close> holds them, \<open>channel_config\<close> the bit depth with
  them.
\<close>

record sample_layout =
  RED_BIT :: nat
  GREEN_BIT :: nat
  BLUE_BIT :: nat
  HSYNC_BIT :: nat
  VSYNC_BIT :: nat

record channel_config =
  m_bitsPerChannel :: nat
  bit_positions :: sample_layout

text \<open>Modelled from the spec: \<open>preparePixel\<close>, the color sample and the two sync bits
  packed into one output word, each field shifted to its bit position.\<close>

definition preparePixel :: "channel_config \<Rightarrow> RGB \<Rightarrow> bool \<Rightarrow> bool \<Rightarrow> uint8_t" where
  "preparePixel cfg rgb HSync VSync =
     (let L = bit_positions cfg in
      push_bit (VSYNC_BIT L) (of_bool VSync)
      OR push_bit (HSYNC_BIT L) (of_bool HSync)
      OR push_bit (BLUE_BIT L) (ucast (B rgb))
      OR push_bit (GREEN_BIT L) (ucast (G rgb))
      OR push_bit (RED_BIT L) (ucast (R rgb)))"

text \<open>Modelled from the spec: mask-extraction of one channel from an output sample, the
  inverse the spec's round-trip property names; the header has no decoder.\<close>

definition extractChannel :: "nat \<Rightarrow> nat \<Rightarrow> uint8_t \<Rightarrow> 2 word" where
  "extractChannel bpc pos w = ucast (drop_bit pos w AND mask bpc)"

text \<open>Modelled from the spec: mask-extraction of the three color channels.\<close>

definition extractColor :: "channel_config \<Rightarrow> uint8_t \<Rightarrow> RGB" where
  "extractColor cfg w =
     (let L = bit_positions cfg; n = m_bitsPerChannel cfg in
      \<lparr>R = extractChannel n (RED_BIT L) w,
       G = extractChannel n (GREEN_BIT L) w,
       B = extractChannel n (BLUE_BIT L) w\<rparr>)"

text \<open>Modelled from the spec: a color truncated to the bit depth.\<close>

definition truncateColor :: "nat \<Rightarrow> RGB \<Rightarrow> RGB" where
  "truncateColor bpc rgb =
     \<lparr>R = R rgb AND mask bpc, G = G rgb AND mask bpc, B = B rgb AND mask bpc\<rparr>"

text \<open>Modelled from the spec: a color whose channels are in range for the bit depth (at
  most 1 with one bit per channel, at most 3 with two, as the header documents for
  \<open>struct RGB\<close>).\<close>

definition colorInRange :: "nat \<Rightarrow> RGB \<Rightarrow> bool" where
  "colorInRange bpc rgb \<longleftrightarrow>
     unat (R rgb) < 2 ^ bpc \<and> unat (G rgb) < 2 ^ bpc \<and> unat (B rgb) < 2 ^ bpc"

text \<open>
  Modelled from the spec: what "fixed bit positions" of a packing asks of the missing
  constants. A layout is usable when the bit depth is 1 or 2 and the five fields (three
  channels of \<open>m_bitsPerChannel\<close> bits, two sync bits) lie inside the 8-bit sample and do
  not overlap. A field is a pair of its first bit and its width.
\<close>

fun apart :: "nat \<times> nat \<Rightarrow> nat \<times> nat \<Rightarrow> bool" where
  "apart (p, n) (q, m) \<longleftrightarrow> p + n \<le> q \<or> q + m \<le> p"

fun pairwise_apart :: "(nat \<times> nat) list \<Rightarrow> bool" where
  "pairwise_apart [] \<longleftrightarrow> True"
| "pairwise_apart (f # fs) \<longleftrightarrow> list_all (apart f) fs \<and> pairwise_apart fs"

definition sample_fields :: "channel_config \<Rightarrow> (nat \<times> nat) list" where
  "sample_fields cfg =
     (let L = bit_positions cfg; n = m_bitsPerChannel cfg in
      [(RED_BIT L, n), (GREEN_BIT L, n), (BLUE_BIT L, n), (HSYNC_BIT L, 1), (VSYNC_BIT L, 1)])"

definition layout_ok :: "channel_config \<Rightarrow> bool" where
  "layout_ok cfg \<longleftrightarrow>
     (m_bitsPerChannel cfg = 1 \<or> m_bitsPerChannel cfg = 2)
     \<and> list_all (\<lambda>(p, n). p + n \<le> 8) (sample_fields cfg)
     \<and> pairwise_apart (sample_fields cfg)"

text \<open>Two layouts for the examples: two bits per channel, and one bit per channel.\<close>

definition layout_64_colors :: channel_config where
  "layout_64_colors =
     \<lparr>m_bitsPerChannel = 2,
      bit_positions = \<lparr>RED_BIT = 0, GREEN_BIT = 2, BLUE_BIT = 4, HSYNC_BIT = 6, VSYNC_BIT = 7\<rparr>\<rparr>"

definition layout_8_colors :: channel_config where
  "layout_8_colors =
     \<lparr>m_bitsPerChannel = 1,
      bit_positions = \<lparr>RED_BIT = 0, GREEN_BIT = 1, BLUE_BIT = 2, HSYNC_BIT = 3, VSYNC_BIT = 4\<rparr>\<rparr>"

subsection \<open>Suspending background execution\<close>

text \<open>
  Modelled from the spec: the bodies of \<open>suspendBackgroundPrimitiveExecution\<close> and
  \<open>resumeBackgroundPrimitiveExecution\<close> are missing. The header declares the counter
  \<open>int m_VSyncInterruptSuspended\<close> with the comment "0 = enabled, >0 suspended" and the
  flag \<open>m_backgroundPrimitiveExecutionEnabled\<close>, and documents that suspending "maintains
  a counter so can be nested". The spec: suspension is a nesting counter, N suspends
  require N resumes before draining resumes. The state is the two fields of the header.
\<close>

record background_execution =
  m_VSyncInterruptSuspended :: int
  m_backgroundPrimitiveExecutionEnabled :: bool

text \<open>Modelled from the spec: a suspend counts one level of nesting up.\<close>

definition suspendBackgroundPrimitiveExecution :: "background_execution \<Rightarrow> background_execution" where
  "suspendBackgroundPrimitiveExecution s =
     s\<lparr>m_VSyncInterruptSuspended := m_VSyncInterruptSuspended s + 1\<rparr>"

text \<open>Modelled from the spec: a resume counts one level down and stops at 0, the lowest
  value the header documents for the counter.\<close>

definition resumeBackgroundPrimitiveExecution :: "background_execution \<Rightarrow> background_execution" where
  "resumeBackgroundPrimitiveExecution s =
     s\<lparr>m_VSyncInterruptSuspended := max 0 (m_VSyncInterruptSuspended s - 1)\<rparr>"

text \<open>Modelled from the spec: execution is suspended while the counter is positive
  ("0 = enabled, >0 suspended").\<close>

definition suspended :: "background_execution \<Rightarrow> bool" where
  "suspended s \<longleftrightarrow> 0 < m_VSyncInterruptSuspended s"

section \<open>Properties of the header's inline operations\<close>

subsection \<open>Bits of masked and shifted words\<close>

lemma bits_below:
  fixes x :: "'a::len word"
  assumes "unat x < 2 ^ n" and "bit x k"
  shows "k < n"
proof -
  have "take_bit n (unat x) = unat x"
    using assms(1) by (rule take_bit_nat_eq_self)
  moreover have "bit (unat x) k"
    using assms(2) by (simp add: bit_unsigned_iff)
  ultimately show ?thesis
    by (metis bit_take_bit_iff)
qed

lemma bits_below_less:
  fixes w :: uint32_t
  assumes "w < 2 ^ n" and "bit w k"
  shows "k < n"
  using assms by (metis bit_take_bit_iff less_mask_eq take_bit_eq_mask)

lemma and_mask_in_range:
  fixes x :: "'a::len word"
  assumes "unat x < 2 ^ n"
  shows "x AND mask n = x"
  by (rule bit_word_eqI) (auto simp: bit_simps dest: bits_below[OF assms])

lemma mask_0xFF: "(0xFF :: uint32_t) = mask 8"
  by (simp add: mask_eq_exp_minus_1)

lemma mask_0x0F: "(0x0F :: uint32_t) = mask 4"
  by (simp add: mask_eq_exp_minus_1)

lemma mask_0xFFFF: "(0xFFFF :: uint32_t) = mask 16"
  by (simp add: mask_eq_exp_minus_1)

subsection \<open>Comparison of colors\<close>

lemma operator_eq_iff: "operator_eq lhs rhs \<longleftrightarrow> lhs = rhs"
  by (cases lhs, cases rhs) (auto simp: operator_eq_def)

text \<open>
  Claim C8 says that \<open>operator!=\<close> is the negation of \<open>operator==\<close>. The header's
  \<open>operator!=\<close> tests the blue channels with \<open>==\<close>, so it answers true for every pair of
  equal colors, for which \<open>operator==\<close> answers true as well; and it answers false for two
  colors that differ in the blue channel only.
\<close>

theorem operator_ne_on_equal_colors:
  "operator_eq c c \<and> operator_ne c c
   \<and> (R a = R b \<and> G a = G b \<and> B a \<noteq> B b \<longrightarrow> \<not> operator_ne a b \<and> \<not> operator_eq a b)"
  by (simp add: operator_eq_def operator_ne_def)

theorem operator_ne_on_equal_colors_witness:
  "operator_eq \<lparr>R = 0, G = 0, B = 0\<rparr> \<lparr>R = 0, G = 0, B = 0\<rparr>
   \<and> operator_ne \<lparr>R = 0, G = 0, B = 0\<rparr> \<lparr>R = 0, G = 0, B = 0\<rparr>
   \<and> \<not> operator_ne \<lparr>R = 0, G = 0, B = 0\<rparr> \<lparr>R = 0, G = 0, B = 1\<rparr>
   \<and> \<not> operator_eq \<lparr>R = 0, G = 0, B = 0\<rparr> \<lparr>R = 0, G = 0, B = 1\<rparr>"
  using operator_ne_on_equal_colors
          [of "\<lparr>R = 0, G = 0, B = 0\<rparr>" "\<lparr>R = 0, G = 0, B = 0\<rparr>" "\<lparr>R = 0, G = 0, B = 1\<rparr>"]
  by simp

subsection \<open>Glyph-map items\<close>

lemmas glyphmap_bits =
  GLYPHMAP_INDEX_BIT_def GLYPHMAP_BGCOLOR_BIT_def GLYPHMAP_FGCOLOR_BIT_def
  GLYPHMAP_OPTIONS_BIT_def

lemma nibble_cases:
  fixes v :: uint32_t
  assumes "v < 16"
  shows "v \<in> {0, 1, 2, 3, 4, 5, 6, 7, 8, 9, 10, 11, 12, 13, 14, 15}"
proof -
  have "unat v < 16"
    using assms by (simp add: word_less_nat_alt)
  then have "unat v \<in> {0, 1, 2, 3, 4, 5, 6, 7, 8, 9, 10, 11, 12, 13, 14, 15}"
    by simp arith
  then show ?thesis
    by (simp add: word_unat_eq_iff)
qed

lemma Color_of_nibble_inverse:
  assumes "v < 16"
  shows "Color_to_uint32 (Color_of_nibble v) = v"
  using nibble_cases[OF assms] by (auto simp: Color_of_nibble_def Color_enumerators_def)

lemma Color_to_uint32_inverse: "Color_of_nibble (Color_to_uint32 c) = c"
  by (cases c) (simp_all add: Color_of_nibble_def Color_enumerators_def)

lemma Color_to_uint32_less: "Color_to_uint32 c < 16"
  by (cases c) simp_all

text \<open>The four fields of an item made from values that fit their fields.\<close>

lemma item_fields:
  assumes "index < 256" and "bgColor < 16" and "fgColor < 16"
  shows "drop_bit 0 (GLYPHMAP_ITEM_MAKE index bgColor fgColor options) AND 0xFF = index"
    and "drop_bit 8 (GLYPHMAP_ITEM_MAKE index bgColor fgColor options) AND 0x0F = bgColor"
    and "drop_bit 12 (GLYPHMAP_ITEM_MAKE index bgColor fgColor options) AND 0x0F = fgColor"
    and "ucast (drop_bit 16 (GLYPHMAP_ITEM_MAKE index bgColor fgColor options) AND 0xFFFF) = options"
proof -
  have i: "\<And>k. bit index k \<Longrightarrow> k < 8"
    using bits_below_less[of index 8] assms(1) by simp
  have b: "\<And>k. bit bgColor k \<Longrightarrow> k < 4"
    using bits_below_less[of bgColor 4] assms(2) by simp
  have f: "\<And>k. bit fgColor k \<Longrightarrow> k < 4"
    using bits_below_less[of fgColor 4] assms(3) by simp
  show "drop_bit 0 (GLYPHMAP_ITEM_MAKE index bgColor fgColor options) AND 0xFF = index"
    unfolding GLYPHMAP_ITEM_MAKE_def glyphmap_bits mask_0xFF
    by (rule bit_word_eqI) (auto simp: bit_simps dest: i b f)
  show "drop_bit 8 (GLYPHMAP_ITEM_MAKE index bgColor fgColor options) AND 0x0F = bgColor"
    unfolding GLYPHMAP_ITEM_MAKE_def glyphmap_bits mask_0x0F
    by (rule bit_word_eqI) (auto simp: bit_simps dest: i b f)
  show "drop_bit 12 (GLYPHMAP_ITEM_MAKE index bgColor fgColor options) AND 0x0F = fgColor"
    unfolding GLYPHMAP_ITEM_MAKE_def glyphmap_bits mask_0x0F
    by (rule bit_word_eqI) (auto simp: bit_simps dest: i b f)
  show "ucast (drop_bit 16 (GLYPHMAP_ITEM_MAKE index bgColor fgColor options) AND 0xFFFF) = options"
    unfolding GLYPHMAP_ITEM_MAKE_def glyphmap_bits mask_0xFFFF
    by (rule bit_word_eqI) (auto simp: bit_simps dest: i b f)
qed

text \<open>\<open>glyphMapItem_setOptions\<close> keeps the low 16 bits of any item and stores the
  options in the high 16.\<close>

lemma setOptions_low_bits:
  "glyphMapItem_setOptions mapItem options AND 0xFFFF = mapItem AND 0xFFFF"
  unfolding glyphMapItem_setOptions_def glyphmap_bits mask_0xFFFF
  by (rule bit_word_eqI) (auto simp: bit_simps)

lemma setOptions_fields:
  "drop_bit 0 (glyphMapItem_setOptions mapItem options) AND 0xFF = drop_bit 0 mapItem AND 0xFF"
  "drop_bit 8 (glyphMapItem_setOptions mapItem options) AND 0x0F = drop_bit 8 mapItem AND 0x0F"
  "drop_bit 12 (glyphMapItem_setOptions mapItem options) AND 0x0F = drop_bit 12 mapItem AND 0x0F"
  "ucast (drop_bit 16 (glyphMapItem_setOptions mapItem options) AND 0xFFFF) = options"
  unfolding glyphMapItem_setOptions_def glyphmap_bits mask_0xFFFF mask_0xFF mask_0x0F
  by (rule bit_word_eqI; auto simp: bit_simps)+

text \<open>
  Claim C9. An item built by \<open>GLYPHMAP_ITEM_MAKE\<close> from an index below 256, a background
  and a foreground color below 16 and any options gives back exactly these four values
  through its accessors; and \<open>glyphMapItem_setOptions\<close>, on any item, stores the new
  options and leaves the index, both colors and indeed all of the low 16 bits as they were.
\<close>

theorem glyphMapItem_accessors_roundtrip:
  assumes "index < 256" and "bgColor < 16" and "fgColor < 16"
  shows "ucast (glyphMapItem_getIndex (GLYPHMAP_ITEM_MAKE index bgColor fgColor options)) = index
       \<and> Color_to_uint32 (glyphMapItem_getBGColor (GLYPHMAP_ITEM_MAKE index bgColor fgColor options)) = bgColor
       \<and> Color_to_uint32 (glyphMapItem_getFGColor (GLYPHMAP_ITEM_MAKE index bgColor fgColor options)) = fgColor
       \<and> glyphMapItem_getOptions (GLYPHMAP_ITEM_MAKE index bgColor fgColor options) = options
       \<and> glyphMapItem_getOptions (glyphMapItem_setOptions mapItem options') = options'
       \<and> glyphMapItem_getIndex (glyphMapItem_setOptions mapItem options') = glyphMapItem_getIndex mapItem
       \<and> glyphMapItem_getBGColor (glyphMapItem_setOptions mapItem options') = glyphMapItem_getBGColor mapItem
       \<and> glyphMapItem_getFGColor (glyphMapItem_setOptions mapItem options') = glyphMapItem_getFGColor mapItem
       \<and> glyphMapItem_setOptions mapItem options' AND 0xFFFF = mapItem AND 0xFFFF"
proof -
  note made = item_fields[OF assms, of options]
  have "ucast (glyphMapItem_getIndex (GLYPHMAP_ITEM_MAKE index bgColor fgColor options))
          = drop_bit 0 (GLYPHMAP_ITEM_MAKE index bgColor fgColor options) AND 0xFF"
    unfolding glyphMapItem_getIndex_def glyphmap_bits mask_0xFF
    by (rule bit_word_eqI) (auto simp: bit_simps)
  then have 1: "ucast (glyphMapItem_getIndex (GLYPHMAP_ITEM_MAKE index bgColor fgColor options)) = index"
    using made(1) by simp
  have 2: "Color_to_uint32 (glyphMapItem_getBGColor (GLYPHMAP_ITEM_MAKE index bgColor fgColor options)) = bgColor"
    using made(2) assms(2)
    by (simp add: glyphMapItem_getBGColor_def glyphmap_bits Color_of_nibble_inverse)
  have 3: "Color_to_uint32 (glyphMapItem_getFGColor (GLYPHMAP_ITEM_MAKE index bgColor fgColor options)) = fgColor"
    using made(3) assms(3)
    by (simp add: glyphMapItem_getFGColor_def glyphmap_bits Color_of_nibble_inverse)
  have 4: "glyphMapItem_getOptions (GLYPHMAP_ITEM_MAKE index bgColor fgColor options) = options"
    using made(4) by (simp add: glyphMapItem_getOptions_def glyphmap_bits)
  have 5: "glyphMapItem_getOptions (glyphMapItem_setOptions mapItem options') = options'"
    using setOptions_fields(4) by (simp add: glyphMapItem_getOptions_def glyphmap_bits)
  have 6: "glyphMapItem_getIndex (glyphMapItem_setOptions mapItem options') = glyphMapItem_getIndex mapItem"
    using setOptions_fields(1)[of mapItem options']
    by (simp add: glyphMapItem_getIndex_def glyphmap_bits)
  have 7: "glyphMapItem_getBGColor (glyphMapItem_setOptions mapItem options') = glyphMapItem_getBGColor mapItem"
    using setOptions_fields(2)[of mapItem options']
    by (simp add: glyphMapItem_getBGColor_def glyphmap_bits)
  have 8: "glyphMapItem_getFGColor (glyphMapItem_setOptions mapItem options') = glyphMapItem_getFGColor mapItem"
    using setOptions_fields(3)[of mapItem options']
    by (simp add: glyphMapItem_getFGColor_def glyphmap_bits)
  show ?thesis
    using 1 2 3 4 5 6 7 8 setOptions_low_bits by blast
qed

theorem glyphMapItem_accessors_roundtrip_witness:
  "(0x41 :: uint32_t) < 256 \<and> Color_to_uint32 Blue < 16 \<and> Color_to_uint32 BrightWhite < 16
   \<and> GLYPHMAP_ITEM_MAKE 0x41 (Color_to_uint32 Blue) (Color_to_uint32 BrightWhite) 0x0123 = 0x0123F441
   \<and> glyphMapItem_getIndex 0x0123F441 = 0x41
   \<and> glyphMapItem_getBGColor 0x0123F441 = Blue
   \<and> glyphMapItem_getFGColor 0x0123F441 = BrightWhite
   \<and> glyphMapItem_getOptions 0x0123F441 = 0x0123
   \<and> glyphMapItem_setOptions 0x0123F441 0x0006 = 0x0006F441
   \<and> glyphMapItem_getOptions (glyphMapItem_setOptions 0x0123F441 0x0006) = 0x0006
   \<and> glyphMapItem_getIndex (glyphMapItem_setOptions 0x0123F441 0x0006) = 0x41"
  using glyphMapItem_accessors_roundtrip
          [of "0x41" "Color_to_uint32 Blue" "Color_to_uint32 BrightWhite" "0x0123" "0x0123F441" "0x0006"]
  by (simp add: GLYPHMAP_ITEM_MAKE_def glyphmap_bits glyphMapItem_getIndex_def
        glyphMapItem_getBGColor_def glyphMapItem_getFGColor_def glyphMapItem_getOptions_def
        glyphMapItem_setOptions_def Color_of_nibble_def Color_enumerators_def)

subsection \<open>Sprite frames\<close>

lemma sint_int16_le: "sint (a :: int16_t) \<le> 32767"
  using sint_lt[of a] by simp

lemma sint_succ_int16:
  fixes a :: int16_t
  assumes "sint a < 32767"
  shows "sint (a + 1) = sint a + 1"
proof -
  have lo: "- 32768 \<le> sint a"
    using sint_ge[of a] by simp
  have "sint (a + 1) = signed_take_bit 15 (sint a + 1)"
    by (simp add: sint_word_ariths)
  also have "\<dots> = sint a + 1"
    using lo assms by (simp add: signed_take_bit_int_eq_self)
  finally show ?thesis .
qed

lemma nextFrame_fields:
  "framesCount (nextFrame s) = framesCount s"
  "frames (nextFrame s) = frames s"
  by (simp_all add: nextFrame_def Let_def)

text \<open>One call: the index goes up by one, and back to 0 from the last frame.\<close>

lemma nextFrame_index:
  assumes "0 \<le> sint (currentFrame s)" and "sint (currentFrame s) < sint (framesCount s)"
  shows "sint (currentFrame (nextFrame s)) =
         (if sint (currentFrame s) + 1 = sint (framesCount s) then 0
          else sint (currentFrame s) + 1)"
proof -
  have "sint (currentFrame s) < 32767"
    using assms(2) sint_int16_le[of "framesCount s"] by linarith
  then have "sint (currentFrame s + 1) = sint (currentFrame s) + 1"
    by (rule sint_succ_int16)
  then show ?thesis
    using assms by (auto simp: nextFrame_def Let_def)
qed

lemma nextFrame_in_range:
  assumes "frame_in_range s"
  shows "frame_in_range (nextFrame s)"
  using assms nextFrame_index[of s]
  unfolding frame_in_range_def by (auto simp: nextFrame_fields split: if_splits)

text \<open>Any number of calls: the invariant holds, the array and its size stay.\<close>

lemma funpow_nextFrame:
  assumes "frame_in_range s"
  shows "frame_in_range ((nextFrame ^^ n) s)
       \<and> framesCount ((nextFrame ^^ n) s) = framesCount s
       \<and> frames ((nextFrame ^^ n) s) = frames s"
  using assms by (induction n) (auto simp: nextFrame_fields nextFrame_in_range)

lemma getFrame_in_bounds:
  assumes "frame_in_range s" and "frames_sized s"
  shows "getFrame s \<noteq> Inl IndexOutOfBounds"
  using assms
  by (auto simp: frame_in_range_def frames_sized_def getFrame_def split: option.splits)

text \<open>
  Claim C10. For a sprite with \<open>framesCount > 0\<close> and \<open>0 \<le> currentFrame < framesCount\<close>,
  \<open>nextFrame\<close> keeps \<open>currentFrame\<close> in that range: it adds one and goes back to 0 when the
  index reaches \<open>framesCount\<close>. So after any number \<open>n\<close> of calls the index is still in
  range, and when the array \<open>frames\<close> holds \<open>framesCount\<close> bitmaps, \<open>getFrame\<close> reads inside it.
\<close>

theorem nextFrame_keeps_currentFrame_in_range:
  assumes "0 < sint (framesCount s)"
      and "0 \<le> sint (currentFrame s)" and "sint (currentFrame s) < sint (framesCount s)"
  shows "0 \<le> getFrameIndex (nextFrame s)
       \<and> getFrameIndex (nextFrame s) < sint (framesCount (nextFrame s))
       \<and> getFrameIndex (nextFrame s) =
           (if getFrameIndex s + 1 = sint (framesCount s) then 0 else getFrameIndex s + 1)
       \<and> 0 \<le> getFrameIndex ((nextFrame ^^ n) s)
       \<and> getFrameIndex ((nextFrame ^^ n) s) < sint (framesCount ((nextFrame ^^ n) s))
       \<and> (frames_sized s \<longrightarrow> getFrame ((nextFrame ^^ n) s) \<noteq> Inl IndexOutOfBounds)"
proof -
  have r: "frame_in_range s"
    using assms by (simp add: frame_in_range_def)
  note it = funpow_nextFrame[OF r, of n]
  have "frames_sized s \<Longrightarrow> frames_sized ((nextFrame ^^ n) s)"
    using it by (auto simp: frames_sized_def split: option.splits)
  then have g: "frames_sized s \<longrightarrow> getFrame ((nextFrame ^^ n) s) \<noteq> Inl IndexOutOfBounds"
    using it getFrame_in_bounds by blast
  show ?thesis
    using nextFrame_in_range[OF r] nextFrame_index[OF assms(2,3)] it g
    by (auto simp: frame_in_range_def getFrameIndex_def nextFrame_fields)
qed

theorem nextFrame_keeps_currentFrame_in_range_witness:
  "0 < sint (framesCount example_sprite)
   \<and> 0 \<le> sint (currentFrame example_sprite)
   \<and> sint (currentFrame example_sprite) < sint (framesCount example_sprite)
   \<and> frames_sized example_sprite
   \<and> getFrameIndex example_sprite = 2
   \<and> getFrameIndex (nextFrame example_sprite) = 0
   \<and> getFrameIndex ((nextFrame ^^ 5) example_sprite) = 1
   \<and> getFrame ((nextFrame ^^ 5) example_sprite) = Inr (Some example_bitmap)"
  using nextFrame_keeps_currentFrame_in_range[of example_sprite 5]
  by (simp add: example_sprite_def frames_sized_def getFrameIndex_def getFrame_def
        eval_nat_numeral nextFrame_def Let_def)

section \<open>Properties of the parts modelled from the spec\<close>

subsection \<open>Encoding a color and extracting it again\<close>

text \<open>Which bits of the sample each field can set.\<close>

lemma channel_field_bits:
  fixes c :: "2 word"
  assumes "unat c < 2 ^ n" and "bit (push_bit q (ucast c :: uint8_t)) k"
  shows "q \<le> k \<and> k < q + n"
proof -
  from assms(2) have "q \<le> k" and "bit c (k - q)"
    by (auto simp: bit_simps)
  then show ?thesis
    using bits_below[OF assms(1)] by fastforce
qed

lemma sync_field_bits:
  assumes "bit (push_bit q (of_bool v :: uint8_t)) k"
  shows "q \<le> k \<and> k < q + 1"
  using assms by (cases v) (auto simp: bit_simps)

lemma own_field_bits:
  fixes c :: "2 word"
  assumes "unat c < 2 ^ n" and "p + n \<le> 8" and "k < n"
  shows "bit (push_bit p (ucast c :: uint8_t)) (p + k) \<longleftrightarrow> bit c k"
  using assms bits_below[OF assms(1)] by (auto simp: bit_simps)

text \<open>A field set apart from the bits \<open>p, \<dots>, p + n - 1\<close> sets none of them.\<close>

lemma apart_commute: "apart f g \<longleftrightarrow> apart g f"
  by (cases f, cases g) auto

lemma channel_field_misses:
  fixes c :: "2 word"
  assumes "unat c < 2 ^ m" and "apart (p, n) (q, m)" and "k < n"
  shows "\<not> bit (push_bit q (ucast c :: uint8_t)) (p + k)"
  using channel_field_bits[OF assms(1), of q "p + k"] assms(2,3) by auto

lemma sync_field_misses:
  assumes "apart (p, n) (q, 1)" and "k < n"
  shows "\<not> bit (push_bit q (of_bool v :: uint8_t)) (p + k)"
  using sync_field_bits[of q v "p + k"] assms by auto

text \<open>A sample whose bits from \<open>p\<close> on are those of a channel value gives that value
  back.\<close>

lemma extract_channel_bits:
  fixes c :: "2 word" and w :: uint8_t
  assumes "unat c < 2 ^ n" and "p + n \<le> 8"
    and "\<And>k. k < n \<Longrightarrow> bit w (p + k) \<longleftrightarrow> bit c k"
  shows "extractChannel n p w = c"
proof (rule bit_word_eqI)
  fix k
  assume len: "k < LENGTH(2)"
  show "bit (extractChannel n p w) k \<longleftrightarrow> bit c k"
  proof (cases "k < n")
    case True
    then show ?thesis
      using assms(2,3) len by (simp add: extractChannel_def bit_simps)
  next
    case False
    then have "\<not> bit c k"
      using assms(1) bits_below by blast
    then show ?thesis
      using False by (simp add: extractChannel_def bit_simps)
  qed
qed

text \<open>
  Claim C3. For a bit depth of 1 or 2 and a color whose channels are in range for it,
  encoding the color into an output sample (with any sync bits) and mask-extracting the
  color bits gives the color truncated to the bit depth, which is the color itself. The
  bit positions are any that keep the five fields inside the sample and apart.
\<close>

theorem preparePixel_extractColor_roundtrip:
  assumes "layout_ok cfg" and "colorInRange (m_bitsPerChannel cfg) rgb"
  shows "extractColor cfg (preparePixel cfg rgb HSync VSync) = truncateColor (m_bitsPerChannel cfg) rgb
       \<and> truncateColor (m_bitsPerChannel cfg) rgb = rgb"
proof -
  define L where "L = bit_positions cfg"
  define n where "n = m_bitsPerChannel cfg"
  define w where "w = preparePixel cfg rgb HSync VSync"
  have rng: "unat (R rgb) < 2 ^ n" "unat (G rgb) < 2 ^ n" "unat (B rgb) < 2 ^ n"
    using assms(2) by (simp_all add: colorInRange_def n_def)
  have fit: "RED_BIT L + n \<le> 8" "GREEN_BIT L + n \<le> 8" "BLUE_BIT L + n \<le> 8"
    using assms(1) by (simp_all add: layout_ok_def sample_fields_def Let_def L_def n_def)
  have ap: "apart (RED_BIT L, n) (GREEN_BIT L, n)" "apart (RED_BIT L, n) (BLUE_BIT L, n)"
    "apart (RED_BIT L, n) (HSYNC_BIT L, 1)" "apart (RED_BIT L, n) (VSYNC_BIT L, 1)"
    "apart (GREEN_BIT L, n) (BLUE_BIT L, n)"
    "apart (GREEN_BIT L, n) (HSYNC_BIT L, 1)" "apart (GREEN_BIT L, n) (VSYNC_BIT L, 1)"
    "apart (BLUE_BIT L, n) (HSYNC_BIT L, 1)" "apart (BLUE_BIT L, n) (VSYNC_BIT L, 1)"
    using assms(1) by (simp_all add: layout_ok_def sample_fields_def Let_def L_def n_def)
  have w: "\<And>k. bit w k \<longleftrightarrow>
      bit (push_bit (VSYNC_BIT L) (of_bool VSync :: uint8_t)) k
    \<or> bit (push_bit (HSYNC_BIT L) (of_bool HSync :: uint8_t)) k
    \<or> bit (push_bit (BLUE_BIT L) (ucast (B rgb) :: uint8_t)) k
    \<or> bit (push_bit (GREEN_BIT L) (ucast (G rgb) :: uint8_t)) k
    \<or> bit (push_bit (RED_BIT L) (ucast (R rgb) :: uint8_t)) k"
    by (simp add: w_def preparePixel_def Let_def L_def bit_or_iff)
  have r: "extractChannel n (RED_BIT L) w = R rgb"
  proof (rule extract_channel_bits[OF rng(1) fit(1)])
    fix k assume k: "k < n"
    show "bit w (RED_BIT L + k) \<longleftrightarrow> bit (R rgb) k"
      unfolding w
      using own_field_bits[OF rng(1) fit(1) k]
        channel_field_misses[OF rng(2) ap(1) k] channel_field_misses[OF rng(3) ap(2) k]
        sync_field_misses[OF ap(3) k, of HSync] sync_field_misses[OF ap(4) k, of VSync]
      by simp
  qed
  have g: "extractChannel n (GREEN_BIT L) w = G rgb"
  proof (rule extract_channel_bits[OF rng(2) fit(2)])
    fix k assume k: "k < n"
    show "bit w (GREEN_BIT L + k) \<longleftrightarrow> bit (G rgb) k"
      unfolding w
      using own_field_bits[OF rng(2) fit(2) k]
        channel_field_misses[OF rng(1) ap(1)[unfolded apart_commute[of "(RED_BIT L, n)"]] k]
        channel_field_misses[OF rng(3) ap(5) k]
        sync_field_misses[OF ap(6) k, of HSync] sync_field_misses[OF ap(7) k, of VSync]
      by simp
  qed
  have b: "extractChannel n (BLUE_BIT L) w = B rgb"
  proof (rule extract_channel_bits[OF rng(3) fit(3)])
    fix k assume k: "k < n"
    show "bit w (BLUE_BIT L + k) \<longleftrightarrow> bit (B rgb) k"
      unfolding w
      using own_field_bits[OF rng(3) fit(3) k]
        channel_field_misses[OF rng(1) ap(2)[unfolded apart_commute[of "(RED_BIT L, n)"]] k]
        channel_field_misses[OF rng(2) ap(5)[unfolded apart_commute[of "(GREEN_BIT L, n)"]] k]
        sync_field_misses[OF ap(8) k, of HSync] sync_field_misses[OF ap(9) k, of VSync]
      by simp
  qed
  have t: "truncateColor n rgb = rgb"
    using rng by (simp add: truncateColor_def and_mask_in_range)
  have "extractColor cfg w = rgb"
    using r g b by (simp add: extractColor_def Let_def L_def n_def)
  then show ?thesis
    using t by (simp add: w_def n_def)
qed

theorem preparePixel_extractColor_roundtrip_witness:
  "layout_ok layout_64_colors
   \<and> colorInRange (m_bitsPerChannel layout_64_colors) \<lparr>R = 3, G = 1, B = 2\<rparr>
   \<and> preparePixel layout_64_colors \<lparr>R = 3, G = 1, B = 2\<rparr> True False = 0x67
   \<and> extractColor layout_64_colors 0x67 = \<lparr>R = 3, G = 1, B = 2\<rparr>
   \<and> layout_ok layout_8_colors
   \<and> colorInRange (m_bitsPerChannel layout_8_colors) \<lparr>R = 1, G = 0, B = 1\<rparr>
   \<and> preparePixel layout_8_colors \<lparr>R = 1, G = 0, B = 1\<rparr> False True = 0x15
   \<and> extractColor layout_8_colors 0x15 = \<lparr>R = 1, G = 0, B = 1\<rparr>"
  using preparePixel_extractColor_roundtrip
          [of layout_64_colors "\<lparr>R = 3, G = 1, B = 2\<rparr>" True False]
        preparePixel_extractColor_roundtrip
          [of layout_8_colors "\<lparr>R = 1, G = 0, B = 1\<rparr>" False True]
  by (simp add: layout_64_colors_def layout_8_colors_def layout_ok_def sample_fields_def
        colorInRange_def preparePixel_def)

subsection \<open>Nested suspension\<close>

lemma funpow_suspend:
  "(suspendBackgroundPrimitiveExecution ^^ n) s =
     s\<lparr>m_VSyncInterruptSuspended := m_VSyncInterruptSuspended s + int n\<rparr>"
  by (induction n) (simp_all add: suspendBackgroundPrimitiveExecution_def)

lemma funpow_resume:
  assumes "int k \<le> m_VSyncInterruptSuspended s"
  shows "(resumeBackgroundPrimitiveExecution ^^ k) s =
           s\<lparr>m_VSyncInterruptSuspended := m_VSyncInterruptSuspended s - int k\<rparr>"
  using assms
proof (induction k)
  case 0
  then show ?case by simp
next
  case (Suc k)
  then have ih: "(resumeBackgroundPrimitiveExecution ^^ k) s =
               s\<lparr>m_VSyncInterruptSuspended := m_VSyncInterruptSuspended s - int k\<rparr>"
    by simp
  have "(resumeBackgroundPrimitiveExecution ^^ Suc k) s =
          resumeBackgroundPrimitiveExecution ((resumeBackgroundPrimitiveExecution ^^ k) s)"
    by simp
  also have "\<dots> = resumeBackgroundPrimitiveExecution
                      (s\<lparr>m_VSyncInterruptSuspended := m_VSyncInterruptSuspended s - int k\<rparr>)"
    by (simp only: ih)
  also have "\<dots> = s\<lparr>m_VSyncInterruptSuspended := m_VSyncInterruptSuspended s - int (Suc k)\<rparr>"
    using Suc.prems by (simp add: resumeBackgroundPrimitiveExecution_def max_def)
  finally show ?case .
qed

text \<open>The counter never goes below 0, whatever is called.\<close>

lemma counter_never_negative:
  assumes "0 \<le> m_VSyncInterruptSuspended s"
  shows "0 \<le> m_VSyncInterruptSuspended (suspendBackgroundPrimitiveExecution s)"
    and "0 \<le> m_VSyncInterruptSuspended (resumeBackgroundPrimitiveExecution s)"
  using assms
  by (simp_all add: suspendBackgroundPrimitiveExecution_def resumeBackgroundPrimitiveExecution_def)

text \<open>
  Claim C4. From any state (its counter at least 0, as the header documents), \<open>N \<ge> 1\<close>
  suspends followed by \<open>N\<close> resumes give the state back, and \<open>N\<close> suspends followed by
  \<open>N - 1\<close> resumes leave execution suspended: the counter is strictly positive.
\<close>

theorem suspend_resume_nesting:
  assumes "1 \<le> N" and "0 \<le> m_VSyncInterruptSuspended s"
  shows "(resumeBackgroundPrimitiveExecution ^^ N)
           ((suspendBackgroundPrimitiveExecution ^^ N) s) = s
       \<and> suspended ((resumeBackgroundPrimitiveExecution ^^ (N - 1))
           ((suspendBackgroundPrimitiveExecution ^^ N) s))
       \<and> 0 < m_VSyncInterruptSuspended ((resumeBackgroundPrimitiveExecution ^^ (N - 1))
           ((suspendBackgroundPrimitiveExecution ^^ N) s))"
proof -
  define t where "t = (suspendBackgroundPrimitiveExecution ^^ N) s"
  have t: "t = s\<lparr>m_VSyncInterruptSuspended := m_VSyncInterruptSuspended s + int N\<rparr>"
    by (simp add: t_def funpow_suspend)
  have "int N \<le> m_VSyncInterruptSuspended t"
    using assms(2) by (simp add: t)
  then have restored: "(resumeBackgroundPrimitiveExecution ^^ N) t = s"
    by (simp add: funpow_resume t)
  have "int (N - 1) \<le> m_VSyncInterruptSuspended t"
    using assms by (simp add: t)
  then have "m_VSyncInterruptSuspended ((resumeBackgroundPrimitiveExecution ^^ (N - 1)) t)
               = m_VSyncInterruptSuspended s + 1"
    using assms(1) by (simp add: funpow_resume t of_nat_diff)
  then show ?thesis
    using restored assms(2) by (simp add: t_def suspended_def)
qed

theorem suspend_resume_nesting_witness:
  "(1 :: nat) \<le> 2
   \<and> 0 \<le> m_VSyncInterruptSuspended
         \<lparr>m_VSyncInterruptSuspended = 0, m_backgroundPrimitiveExecutionEnabled = True\<rparr>
   \<and> (resumeBackgroundPrimitiveExecution ^^ 2) ((suspendBackgroundPrimitiveExecution ^^ 2)
         \<lparr>m_VSyncInterruptSuspended = 0, m_backgroundPrimitiveExecutionEnabled = True\<rparr>)
       = \<lparr>m_VSyncInterruptSuspended = 0, m_backgroundPrimitiveExecutionEnabled = True\<rparr>
   \<and> (resumeBackgroundPrimitiveExecution ^^ 1) ((suspendBackgroundPrimitiveExecution ^^ 2)
         \<lparr>m_VSyncInterruptSuspended = 0, m_backgroundPrimitiveExecutionEnabled = True\<rparr>)
       = \<lparr>m_VSyncInterruptSuspended = 1, m_backgroundPrimitiveExecutionEnabled = True\<rparr>
   \<and> suspended ((resumeBackgroundPrimitiveExecution ^^ 1) ((suspendBackgroundPrimitiveExecution ^^ 2)
         \<lparr>m_VSyncInterruptSuspended = 0, m_backgroundPrimitiveExecutionEnabled = True\<rparr>))"
  using suspend_resume_nesting
          [of 2 "\<lparr>m_VSyncInterruptSuspended = 0, m_backgroundPrimitiveExecutionEnabled = True\<rparr>"]
  by (simp add: eval_nat_numeral suspendBackgroundPrimitiveExecution_def
        resumeBackgroundPrimitiveExecution_def suspended_def)

end
